theory Spec2Isabelle
  imports Main
begin

section \<open>The error classes of \<^verbatim>\<open>src/errors/index.ts\<close>\<close>

text \<open>
  The module declares an abstract base \<^verbatim>\<open>SdkError extends Error\<close> with one abstract
  field \<^verbatim>\<open>code\<close>, and ten concrete subclasses. Every subclass has a constructor and
  nothing else: it calls \<^verbatim>\<open>super(message)\<close>, sets \<^verbatim>\<open>this.name\<close>, and initialises
  \<^verbatim>\<open>code\<close> (and \<^verbatim>\<open>cause\<close> where the class declares one). No constructor contains a
  \<^verbatim>\<open>throw\<close>, so the model of a constructor has no failure branch.
\<close>

subsection \<open>Optional values and \<^verbatim>\<open>??\<close>\<close>

text \<open>
  An optional parameter or field (\<^verbatim>\<open>message?: string\<close>, \<^verbatim>\<open>cause?: OAuth2Error\<close>) holds
  \<^verbatim>\<open>undefined\<close> when it is omitted. The operator \<^verbatim>\<open>a ?? b\<close> yields \<^verbatim>\<open>b\<close> when
  \<^verbatim>\<open>a\<close> is \<^verbatim>\<open>undefined\<close> or \<^verbatim>\<open>null\<close> and \<^verbatim>\<open>a\<close> otherwise; the empty string is a
  value like any other.
\<close>

datatype 'a optional = Undefined | Null | Defined 'a

fun nullish_coalesce :: "'a optional \<Rightarrow> 'a \<Rightarrow> 'a" where
  "nullish_coalesce Undefined b = b"
| "nullish_coalesce Null b = b"
| "nullish_coalesce (Defined a) b = a"

fun is_present :: "'a optional \<Rightarrow> bool" where
  "is_present (Defined a) = True"
| "is_present Undefined = False"
| "is_present Null = False"

subsection \<open>Instances and the object store\<close>

text \<open>
  An instance of any of the classes carries the fields \<^verbatim>\<open>name\<close> and \<^verbatim>\<open>message\<close>
  (from \<^verbatim>\<open>Error\<close>), \<^verbatim>\<open>code\<close> (from \<^verbatim>\<open>SdkError\<close>) and \<^verbatim>\<open>cause\<close>. The cause is a
  reference to an \<^verbatim>\<open>OAuth2Error\<close> object, not a copy of it; a class that declares no
  \<^verbatim>\<open>cause\<close> reads as \<^verbatim>\<open>undefined\<close> there. Objects live in a store; a reference is an
  index into it, and \<^verbatim>\<open>new\<close> appends the fresh object.
\<close>

type_synonym ref = nat

record sdk_error =
  name :: string
  code :: string
  message :: string
  cause :: "ref optional"

type_synonym store = "sdk_error list"

definition alloc :: "sdk_error \<Rightarrow> store \<Rightarrow> ref \<times> store" where
  "alloc obj s = (length s, s @ [obj])"

definition instance_of :: "ref \<times> store \<Rightarrow> sdk_error" where
  "instance_of p = snd p ! fst p"



subsection \<open>\<^verbatim>\<open>OAuth2Error\<close>\<close>

text \<open>
  \<^verbatim>\<open>constructor({ code, message }: { code: string; message?: string })\<close>: the two
  properties of the argument object are the two arguments of the model.
\<close>

definition OAuth2Error :: "string \<Rightarrow> string optional \<Rightarrow> sdk_error" where
  "OAuth2Error code_arg message_arg =
     \<lparr> name = ''OAuth2Error'',
       code = code_arg,
       message = nullish_coalesce message_arg
         ''An error occured while interacting with the authorization server.'',
       cause = Undefined \<rparr>"

definition new_OAuth2Error :: "string \<Rightarrow> string optional \<Rightarrow> store \<Rightarrow> ref \<times> store" where
  "new_OAuth2Error code_arg message_arg s = alloc (OAuth2Error code_arg message_arg) s"

subsection \<open>The flow-specific classes\<close>

definition DiscoveryError :: "string optional \<Rightarrow> sdk_error" where
  "DiscoveryError message_arg =
     \<lparr> name = ''DiscoveryError'',
       code = ''discovery_error'',
       message = nullish_coalesce message_arg
         ''Discovery failed for the OpenID Connect configuration.'',
       cause = Undefined \<rparr>"

definition new_DiscoveryError :: "string optional \<Rightarrow> store \<Rightarrow> ref \<times> store" where
  "new_DiscoveryError message_arg s = alloc (DiscoveryError message_arg) s"

definition MissingStateError :: "string optional \<Rightarrow> sdk_error" where
  "MissingStateError message_arg =
     \<lparr> name = ''MissingStateError'',
       code = ''missing_state'',
       message = nullish_coalesce message_arg ''The state parameter is missing.'',
       cause = Undefined \<rparr>"

definition new_MissingStateError :: "string optional \<Rightarrow> store \<Rightarrow> ref \<times> store" where
  "new_MissingStateError message_arg s = alloc (MissingStateError message_arg) s"

definition InvalidStateError :: "string optional \<Rightarrow> sdk_error" where
  "InvalidStateError message_arg =
     \<lparr> name = ''InvalidStateError'',
       code = ''invalid_state'',
       message = nullish_coalesce message_arg ''The state parameter is invalid.'',
       cause = Undefined \<rparr>"

definition new_InvalidStateError :: "string optional \<Rightarrow> store \<Rightarrow> ref \<times> store" where
  "new_InvalidStateError message_arg s = alloc (InvalidStateError message_arg) s"

text \<open>
  \<^verbatim>\<open>constructor({ cause, message }: { cause: OAuth2Error; message?: string })\<close>: the
  cause is a required reference to an \<^verbatim>\<open>OAuth2Error\<close>, stored by
  \<^verbatim>\<open>this.cause = cause\<close>.
\<close>

definition AuthorizationError :: "ref \<Rightarrow> string optional \<Rightarrow> sdk_error" where
  "AuthorizationError cause_arg message_arg =
     \<lparr> name = ''AuthorizationError'',
       code = ''authorization_error'',
       message = nullish_coalesce message_arg
         ''An error occured during the authorization flow.'',
       cause = Defined cause_arg \<rparr>"

definition new_AuthorizationError :: "ref \<Rightarrow> string optional \<Rightarrow> store \<Rightarrow> ref \<times> store" where
  "new_AuthorizationError cause_arg message_arg s =
     alloc (AuthorizationError cause_arg message_arg) s"

definition AuthorizationCodeGrantRequestError :: "string optional \<Rightarrow> sdk_error" where
  "AuthorizationCodeGrantRequestError message_arg =
     \<lparr> name = ''AuthorizationCodeGrantRequestError'',
       code = ''authorization_code_grant_request_error'',
       message = nullish_coalesce message_arg
         ''An error occured while preparing or performing the authorization code grant request.'',
       cause = Undefined \<rparr>"

definition new_AuthorizationCodeGrantRequestError ::
  "string optional \<Rightarrow> store \<Rightarrow> ref \<times> store" where
  "new_AuthorizationCodeGrantRequestError message_arg s =
     alloc (AuthorizationCodeGrantRequestError message_arg) s"

definition AuthorizationCodeGrantError :: "ref \<Rightarrow> string optional \<Rightarrow> sdk_error" where
  "AuthorizationCodeGrantError cause_arg message_arg =
     \<lparr> name = ''AuthorizationCodeGrantError'',
       code = ''authorization_code_grant_error'',
       message = nullish_coalesce message_arg
         ''An error occured while trying to exchange the authorization code.'',
       cause = Defined cause_arg \<rparr>"

definition new_AuthorizationCodeGrantError ::
  "ref \<Rightarrow> string optional \<Rightarrow> store \<Rightarrow> ref \<times> store" where
  "new_AuthorizationCodeGrantError cause_arg message_arg s =
     alloc (AuthorizationCodeGrantError cause_arg message_arg) s"

definition BackchannelLogoutError :: "string optional \<Rightarrow> sdk_error" where
  "BackchannelLogoutError message_arg =
     \<lparr> name = ''BackchannelLogoutError'',
       code = ''backchannel_logout_error'',
       message = nullish_coalesce message_arg
         ''An error occured while completing the backchannel logout request.'',
       cause = Undefined \<rparr>"

definition new_BackchannelLogoutError :: "string optional \<Rightarrow> store \<Rightarrow> ref \<times> store" where
  "new_BackchannelLogoutError message_arg s = alloc (BackchannelLogoutError message_arg) s"

subsection \<open>The access-token classes and their code enumerations\<close>

datatype AccessTokenErrorCode =
  MISSING_SESSION | MISSING_REFRESH_TOKEN | FAILED_TO_REFRESH_TOKEN

fun AccessTokenErrorCode_value :: "AccessTokenErrorCode \<Rightarrow> string" where
  "AccessTokenErrorCode_value AccessTokenErrorCode.MISSING_SESSION = ''missing_session''"
| "AccessTokenErrorCode_value AccessTokenErrorCode.MISSING_REFRESH_TOKEN =
     ''missing_refresh_token''"
| "AccessTokenErrorCode_value FAILED_TO_REFRESH_TOKEN = ''failed_to_refresh_token''"

definition AccessTokenErrorCode_values :: "string list" where
  "AccessTokenErrorCode_values =
     [AccessTokenErrorCode_value AccessTokenErrorCode.MISSING_SESSION,
      AccessTokenErrorCode_value AccessTokenErrorCode.MISSING_REFRESH_TOKEN,
      AccessTokenErrorCode_value FAILED_TO_REFRESH_TOKEN]"

text \<open>
  \<^verbatim>\<open>constructor(code: string, message: string, cause?: OAuth2Error)\<close>: the code is
  typed \<^verbatim>\<open>string\<close>, not \<^verbatim>\<open>AccessTokenErrorCode\<close>; all three arguments are stored as
  they come.
\<close>

definition AccessTokenError :: "string \<Rightarrow> string \<Rightarrow> ref optional \<Rightarrow> sdk_error" where
  "AccessTokenError code_arg message_arg cause_arg =
     \<lparr> name = ''AccessTokenError'',
       code = code_arg,
       message = message_arg,
       cause = cause_arg \<rparr>"

definition new_AccessTokenError ::
  "string \<Rightarrow> string \<Rightarrow> ref optional \<Rightarrow> store \<Rightarrow> ref \<times> store" where
  "new_AccessTokenError code_arg message_arg cause_arg s =
     alloc (AccessTokenError code_arg message_arg cause_arg) s"

datatype AccessTokenForConnectionErrorCode =
  MISSING_SESSION | MISSING_REFRESH_TOKEN | FAILED_TO_EXCHANGE

fun AccessTokenForConnectionErrorCode_value :: "AccessTokenForConnectionErrorCode \<Rightarrow> string" where
  "AccessTokenForConnectionErrorCode_value AccessTokenForConnectionErrorCode.MISSING_SESSION =
     ''missing_session''"
| "AccessTokenForConnectionErrorCode_value AccessTokenForConnectionErrorCode.MISSING_REFRESH_TOKEN =
     ''missing_refresh_token''"
| "AccessTokenForConnectionErrorCode_value FAILED_TO_EXCHANGE =
     ''failed_to_exchange_refresh_token''"

definition AccessTokenForConnectionErrorCode_values :: "string list" where
  "AccessTokenForConnectionErrorCode_values =
     [AccessTokenForConnectionErrorCode_value AccessTokenForConnectionErrorCode.MISSING_SESSION,
      AccessTokenForConnectionErrorCode_value
        AccessTokenForConnectionErrorCode.MISSING_REFRESH_TOKEN,
      AccessTokenForConnectionErrorCode_value FAILED_TO_EXCHANGE]"

definition AccessTokenForConnectionError ::
  "string \<Rightarrow> string \<Rightarrow> ref optional \<Rightarrow> sdk_error" where
  "AccessTokenForConnectionError code_arg message_arg cause_arg =
     \<lparr> name = ''AccessTokenForConnectionError'',
       code = code_arg,
       message = message_arg,
       cause = cause_arg \<rparr>"

definition new_AccessTokenForConnectionError ::
  "string \<Rightarrow> string \<Rightarrow> ref optional \<Rightarrow> store \<Rightarrow> ref \<times> store" where
  "new_AccessTokenForConnectionError code_arg message_arg cause_arg s =
     alloc (AccessTokenForConnectionError code_arg message_arg cause_arg) s"

section \<open>Facts about allocation\<close>

lemma instance_of_alloc: "instance_of (alloc obj s) = obj"
  by (simp add: instance_of_def alloc_def)

lemma alloc_ref: "fst (alloc obj s) = length s"
  by (simp add: alloc_def)

lemma alloc_frame: "take (length s) (snd (alloc obj s)) = s"
  by (simp add: alloc_def)

lemma alloc_length: "length (snd (alloc obj s)) = Suc (length s)"
  by (simp add: alloc_def)

lemmas new_defs =
  new_OAuth2Error_def new_DiscoveryError_def new_MissingStateError_def
  new_InvalidStateError_def new_AuthorizationError_def
  new_AuthorizationCodeGrantRequestError_def new_AuthorizationCodeGrantError_def
  new_BackchannelLogoutError_def new_AccessTokenError_def
  new_AccessTokenForConnectionError_def

lemmas ctor_defs =
  OAuth2Error_def DiscoveryError_def MissingStateError_def InvalidStateError_def
  AuthorizationError_def AuthorizationCodeGrantRequestError_def
  AuthorizationCodeGrantError_def BackchannelLogoutError_def AccessTokenError_def
  AccessTokenForConnectionError_def

section \<open>Fixed codes\<close>

text \<open>
  C5. Each of the seven flow-specific classes has a constant code, whatever is passed to
  its constructor and whatever the store holds: \<^verbatim>\<open>discovery_error\<close>,
  \<^verbatim>\<open>missing_state\<close>, \<^verbatim>\<open>invalid_state\<close>, \<^verbatim>\<open>authorization_error\<close>,
  \<^verbatim>\<open>authorization_code_grant_request_error\<close>, \<^verbatim>\<open>authorization_code_grant_error\<close>,
  \<^verbatim>\<open>backchannel_logout_error\<close>.
\<close>

theorem flow_codes_fixed:
  "code (instance_of (new_DiscoveryError m s)) = ''discovery_error''
   \<and> code (instance_of (new_MissingStateError m s)) = ''missing_state''
   \<and> code (instance_of (new_InvalidStateError m s)) = ''invalid_state''
   \<and> code (instance_of (new_AuthorizationError c m s)) = ''authorization_error''
   \<and> code (instance_of (new_AuthorizationCodeGrantRequestError m s)) =
       ''authorization_code_grant_request_error''
   \<and> code (instance_of (new_AuthorizationCodeGrantError c m s)) =
       ''authorization_code_grant_error''
   \<and> code (instance_of (new_BackchannelLogoutError m s)) = ''backchannel_logout_error''"
  by (simp add: new_defs instance_of_alloc ctor_defs)

text \<open>
  \<^verbatim>\<open>OAuth2Error\<close> also extends \<^verbatim>\<open>SdkError\<close>, and its code is the caller's.
\<close>

lemma OAuth2Error_code_supplied: "code (instance_of (new_OAuth2Error k m s)) = k"
  by (simp add: new_OAuth2Error_def instance_of_alloc OAuth2Error_def)

section \<open>Messages\<close>

text \<open>
  With the message omitted, three of the flow-specific classes produce the sentence the
  specification documents for them.
\<close>

lemma state_and_discovery_defaults:
  "message (instance_of (new_DiscoveryError Undefined s)) =
     ''Discovery failed for the OpenID Connect configuration.''
   \<and> message (instance_of (new_MissingStateError Undefined s)) =
     ''The state parameter is missing.''
   \<and> message (instance_of (new_InvalidStateError Undefined s)) =
     ''The state parameter is invalid.''"
  by (simp add: new_defs instance_of_alloc ctor_defs)

text \<open>
  C2. The other four flow-specific classes do not: their default sentence is spelled
  ``An error occured \<dots>'' in the source, where the documented text reads
  ``An error occurred \<dots>''. Evaluated with the message omitted, on the store that holds
  the \<^verbatim>\<open>OAuth2Error\<close> passed as cause: each message is the source's literal and differs
  from the documented sentence.
\<close>

theorem flow_default_messages_misspelled:
  "message (instance_of (new_AuthorizationError 0 Undefined
       (snd (new_OAuth2Error ''access_denied'' Undefined [])))) =
     ''An error occured during the authorization flow.''
   \<and> message (instance_of (new_AuthorizationError 0 Undefined
       (snd (new_OAuth2Error ''access_denied'' Undefined [])))) \<noteq>
     ''An error occurred during the authorization flow.''
   \<and> message (instance_of (new_AuthorizationCodeGrantRequestError Undefined [])) =
     ''An error occured while preparing or performing the authorization code grant request.''
   \<and> message (instance_of (new_AuthorizationCodeGrantRequestError Undefined [])) \<noteq>
     ''An error occurred while preparing or performing the authorization code grant request.''
   \<and> message (instance_of (new_AuthorizationCodeGrantError 0 Undefined
       (snd (new_OAuth2Error ''invalid_grant'' Undefined [])))) =
     ''An error occured while trying to exchange the authorization code.''
   \<and> message (instance_of (new_AuthorizationCodeGrantError 0 Undefined
       (snd (new_OAuth2Error ''invalid_grant'' Undefined [])))) \<noteq>
     ''An error occurred while trying to exchange the authorization code.''
   \<and> message (instance_of (new_BackchannelLogoutError Undefined [])) =
     ''An error occured while completing the backchannel logout request.''
   \<and> message (instance_of (new_BackchannelLogoutError Undefined [])) \<noteq>
     ''An error occurred while completing the backchannel logout request.''"
  by (simp add: new_defs instance_of_alloc ctor_defs)

text \<open>
  C4. The same spelling is in the default of \<^verbatim>\<open>OAuth2Error\<close>: constructed without a
  message, its message is ``An error occured while interacting with the authorization
  server.'', not the documented ``An error occurred \<dots>''.
\<close>

theorem OAuth2Error_default_message_misspelled:
  "message (instance_of (new_OAuth2Error ''invalid_grant'' Undefined [])) =
     ''An error occured while interacting with the authorization server.''
   \<and> message (instance_of (new_OAuth2Error ''invalid_grant'' Undefined [])) \<noteq>
     ''An error occurred while interacting with the authorization server.''"
  by (simp add: new_OAuth2Error_def instance_of_alloc OAuth2Error_def)

text \<open>
  The other half of that claim holds: a supplied code and message are stored as given.
\<close>

lemma OAuth2Error_roundtrip:
  "code (instance_of (new_OAuth2Error k (Defined m) s)) = k
   \<and> message (instance_of (new_OAuth2Error k (Defined m) s)) = m"
  by (simp add: new_OAuth2Error_def instance_of_alloc OAuth2Error_def)

text \<open>
  C8. For each of the seven flow-specific classes, an explicit message becomes the
  instance's message, the code keeps its fixed value, and the instance differs from the
  one built without a message in the message field only.
\<close>

theorem flow_message_override:
  "instance_of (new_DiscoveryError (Defined m) s) =
     (instance_of (new_DiscoveryError Undefined s))\<lparr>message := m\<rparr>
   \<and> instance_of (new_MissingStateError (Defined m) s) =
     (instance_of (new_MissingStateError Undefined s))\<lparr>message := m\<rparr>
   \<and> instance_of (new_InvalidStateError (Defined m) s) =
     (instance_of (new_InvalidStateError Undefined s))\<lparr>message := m\<rparr>
   \<and> instance_of (new_AuthorizationError c (Defined m) s) =
     (instance_of (new_AuthorizationError c Undefined s))\<lparr>message := m\<rparr>
   \<and> instance_of (new_AuthorizationCodeGrantRequestError (Defined m) s) =
     (instance_of (new_AuthorizationCodeGrantRequestError Undefined s))\<lparr>message := m\<rparr>
   \<and> instance_of (new_AuthorizationCodeGrantError c (Defined m) s) =
     (instance_of (new_AuthorizationCodeGrantError c Undefined s))\<lparr>message := m\<rparr>
   \<and> instance_of (new_BackchannelLogoutError (Defined m) s) =
     (instance_of (new_BackchannelLogoutError Undefined s))\<lparr>message := m\<rparr>
   \<and> message (instance_of (new_DiscoveryError (Defined m) s)) = m
   \<and> message (instance_of (new_MissingStateError (Defined m) s)) = m
   \<and> message (instance_of (new_InvalidStateError (Defined m) s)) = m
   \<and> message (instance_of (new_AuthorizationError c (Defined m) s)) = m
   \<and> message (instance_of (new_AuthorizationCodeGrantRequestError (Defined m) s)) = m
   \<and> message (instance_of (new_AuthorizationCodeGrantError c (Defined m) s)) = m
   \<and> message (instance_of (new_BackchannelLogoutError (Defined m) s)) = m
   \<and> code (instance_of (new_DiscoveryError (Defined m) s)) = ''discovery_error''
   \<and> code (instance_of (new_MissingStateError (Defined m) s)) = ''missing_state''
   \<and> code (instance_of (new_InvalidStateError (Defined m) s)) = ''invalid_state''
   \<and> code (instance_of (new_AuthorizationError c (Defined m) s)) = ''authorization_error''
   \<and> code (instance_of (new_AuthorizationCodeGrantRequestError (Defined m) s)) =
       ''authorization_code_grant_request_error''
   \<and> code (instance_of (new_AuthorizationCodeGrantError c (Defined m) s)) =
       ''authorization_code_grant_error''
   \<and> code (instance_of (new_BackchannelLogoutError (Defined m) s)) =
       ''backchannel_logout_error''"
  by (simp add: new_defs instance_of_alloc ctor_defs)

text \<open>
  C10. In every class whose message parameter is optional (\<^verbatim>\<open>OAuth2Error\<close> and the seven
  flow-specific classes), every explicit message is the instance's message, whatever the
  string. In particular the empty string passed as message is kept: the instance's
  message is the empty string, not the default, and the default is used for
  \<^verbatim>\<open>undefined\<close> and \<^verbatim>\<open>null\<close> only.
\<close>

theorem empty_message_kept:
  "message (instance_of (new_OAuth2Error k (Defined t) s)) = t
   \<and> message (instance_of (new_DiscoveryError (Defined t) s)) = t
   \<and> message (instance_of (new_MissingStateError (Defined t) s)) = t
   \<and> message (instance_of (new_InvalidStateError (Defined t) s)) = t
   \<and> message (instance_of (new_AuthorizationError c (Defined t) s)) = t
   \<and> message (instance_of (new_AuthorizationCodeGrantRequestError (Defined t) s)) = t
   \<and> message (instance_of (new_AuthorizationCodeGrantError c (Defined t) s)) = t
   \<and> message (instance_of (new_BackchannelLogoutError (Defined t) s)) = t
   \<and> message (instance_of (new_OAuth2Error k (Defined '''') s)) = ''''
   \<and> message (instance_of (new_DiscoveryError (Defined '''') s)) = ''''
   \<and> message (instance_of (new_MissingStateError (Defined '''') s)) = ''''
   \<and> message (instance_of (new_InvalidStateError (Defined '''') s)) = ''''
   \<and> message (instance_of (new_AuthorizationError c (Defined '''') s)) = ''''
   \<and> message (instance_of (new_AuthorizationCodeGrantRequestError (Defined '''') s)) = ''''
   \<and> message (instance_of (new_AuthorizationCodeGrantError c (Defined '''') s)) = ''''
   \<and> message (instance_of (new_BackchannelLogoutError (Defined '''') s)) = ''''
   \<and> message (instance_of (new_OAuth2Error k Null s)) =
       message (instance_of (new_OAuth2Error k Undefined s))
   \<and> message (instance_of (new_DiscoveryError Null s)) =
       message (instance_of (new_DiscoveryError Undefined s))
   \<and> message (instance_of (new_MissingStateError Null s)) =
       message (instance_of (new_MissingStateError Undefined s))
   \<and> message (instance_of (new_InvalidStateError Null s)) =
       message (instance_of (new_InvalidStateError Undefined s))
   \<and> message (instance_of (new_AuthorizationError c Null s)) =
       message (instance_of (new_AuthorizationError c Undefined s))
   \<and> message (instance_of (new_AuthorizationCodeGrantRequestError Null s)) =
       message (instance_of (new_AuthorizationCodeGrantRequestError Undefined s))
   \<and> message (instance_of (new_AuthorizationCodeGrantError c Null s)) =
       message (instance_of (new_AuthorizationCodeGrantError c Undefined s))
   \<and> message (instance_of (new_BackchannelLogoutError Null s)) =
       message (instance_of (new_BackchannelLogoutError Undefined s))
   \<and> message (instance_of (new_OAuth2Error k Undefined s)) \<noteq> ''''
   \<and> message (instance_of (new_DiscoveryError Undefined s)) \<noteq> ''''
   \<and> message (instance_of (new_MissingStateError Undefined s)) \<noteq> ''''
   \<and> message (instance_of (new_InvalidStateError Undefined s)) \<noteq> ''''
   \<and> message (instance_of (new_AuthorizationError c Undefined s)) \<noteq> ''''
   \<and> message (instance_of (new_AuthorizationCodeGrantRequestError Undefined s)) \<noteq> ''''
   \<and> message (instance_of (new_AuthorizationCodeGrantError c Undefined s)) \<noteq> ''''
   \<and> message (instance_of (new_BackchannelLogoutError Undefined s)) \<noteq> ''''"
  by (simp add: new_defs instance_of_alloc ctor_defs)

section \<open>Causes\<close>

text \<open>
  C3. An \<^verbatim>\<open>AuthorizationError\<close> and an \<^verbatim>\<open>AuthorizationCodeGrantError\<close> always have a
  cause, and it is the very reference passed to the constructor; construction leaves
  every object already in the store, the referenced \<^verbatim>\<open>OAuth2Error\<close> among them, as it
  was.
\<close>

theorem authorization_cause_is_argument:
  "cause (instance_of (new_AuthorizationError c m s)) = Defined c
   \<and> is_present (cause (instance_of (new_AuthorizationError c m s)))
   \<and> take (length s) (snd (new_AuthorizationError c m s)) = s
   \<and> cause (instance_of (new_AuthorizationCodeGrantError c m s)) = Defined c
   \<and> is_present (cause (instance_of (new_AuthorizationCodeGrantError c m s)))
   \<and> take (length s) (snd (new_AuthorizationCodeGrantError c m s)) = s"
  by (simp add: new_AuthorizationError_def new_AuthorizationCodeGrantError_def
      instance_of_alloc alloc_frame AuthorizationError_def AuthorizationCodeGrantError_def)

text \<open>
  C1, as stated, fails: the constructors of \<^verbatim>\<open>AccessTokenError\<close> and
  \<^verbatim>\<open>AccessTokenForConnectionError\<close> do not look at the code when they store the cause.
  An instance built with code \<^verbatim>\<open>missing_session\<close> and a cause has that cause, and one
  built with the failure code and no cause has none.
\<close>

theorem access_token_cause_counterexample:
  "\<not> (is_present (cause (instance_of (new_AccessTokenError
          (AccessTokenErrorCode_value AccessTokenErrorCode.MISSING_SESSION) ''no session''
          (Defined 0) (snd (new_OAuth2Error ''invalid_grant'' Undefined [])))))
       = (code (instance_of (new_AccessTokenError
          (AccessTokenErrorCode_value AccessTokenErrorCode.MISSING_SESSION) ''no session''
          (Defined 0) (snd (new_OAuth2Error ''invalid_grant'' Undefined []))))
          = ''failed_to_refresh_token''))
   \<and> \<not> (is_present (cause (instance_of (new_AccessTokenForConnectionError
          (AccessTokenForConnectionErrorCode_value FAILED_TO_EXCHANGE) ''exchange failed''
          Undefined [])))
       = (code (instance_of (new_AccessTokenForConnectionError
          (AccessTokenForConnectionErrorCode_value FAILED_TO_EXCHANGE) ''exchange failed''
          Undefined []))
          = ''failed_to_exchange_refresh_token''))"
  by (simp add: new_AccessTokenError_def new_AccessTokenForConnectionError_def
      new_OAuth2Error_def instance_of_alloc AccessTokenError_def
      AccessTokenForConnectionError_def)

text \<open>
  C1, amended. Both constructors store the cause argument exactly as supplied, whatever
  the code: the instance has a cause if and only if the caller passed one.
\<close>

theorem access_token_cause_as_supplied:
  "cause (instance_of (new_AccessTokenError k m c s)) = c
   \<and> is_present (cause (instance_of (new_AccessTokenError k m c s))) = is_present c
   \<and> cause (instance_of (new_AccessTokenForConnectionError k m c s)) = c
   \<and> is_present (cause (instance_of (new_AccessTokenForConnectionError k m c s))) =
       is_present c"
  by (simp add: new_AccessTokenError_def new_AccessTokenForConnectionError_def
      instance_of_alloc AccessTokenError_def AccessTokenForConnectionError_def)

section \<open>Caller-supplied codes\<close>

text \<open>
  C6, as stated, fails: the code parameter of both access-token constructors has the type
  \<^verbatim>\<open>string\<close>, and a string outside the enumeration is stored like any other.
\<close>

theorem access_token_code_counterexample:
  "code (instance_of (new_AccessTokenError ''bogus'' ''text'' Undefined []))
     \<notin> set AccessTokenErrorCode_values
   \<and> code (instance_of (new_AccessTokenForConnectionError ''bogus'' ''text'' Undefined []))
     \<notin> set AccessTokenForConnectionErrorCode_values"
  by (simp add: new_AccessTokenError_def new_AccessTokenForConnectionError_def
      instance_of_alloc AccessTokenError_def AccessTokenForConnectionError_def
      AccessTokenErrorCode_values_def AccessTokenForConnectionErrorCode_values_def)

text \<open>
  C6, amended. The code of an \<^verbatim>\<open>AccessTokenError\<close> or
  \<^verbatim>\<open>AccessTokenForConnectionError\<close> is exactly the string the caller supplied; it is
  one of the three values of the class's enumeration whenever the caller passes a member
  of that enumeration.
\<close>

theorem access_token_code_as_supplied:
  "code (instance_of (new_AccessTokenError k m c s)) = k
   \<and> code (instance_of (new_AccessTokenForConnectionError k m c s)) = k
   \<and> code (instance_of (new_AccessTokenError (AccessTokenErrorCode_value e) m c s))
       \<in> set AccessTokenErrorCode_values
   \<and> code (instance_of (new_AccessTokenForConnectionError
         (AccessTokenForConnectionErrorCode_value e') m c s))
       \<in> set AccessTokenForConnectionErrorCode_values"
  by (cases e; cases e')
     (simp_all add: new_AccessTokenError_def new_AccessTokenForConnectionError_def
      instance_of_alloc AccessTokenError_def AccessTokenForConnectionError_def
      AccessTokenErrorCode_values_def AccessTokenForConnectionErrorCode_values_def)

text \<open>
  C7, as stated, fails: the constructor of \<^verbatim>\<open>OAuth2Error\<close> does not inspect the code.
  With the empty string as code, construction returns a fresh instance whose code is the
  empty string.
\<close>

theorem OAuth2Error_empty_code_counterexample:
  "new_OAuth2Error '''' Undefined [] =
     (0, [\<lparr> name = ''OAuth2Error'', code = '''',
            message = ''An error occured while interacting with the authorization server.'',
            cause = Undefined \<rparr>])"
  by (simp add: new_OAuth2Error_def alloc_def OAuth2Error_def)

text \<open>
  C7, amended. Constructing an \<^verbatim>\<open>OAuth2Error\<close> performs no validation of the code at
  all: for every code, the empty string included, construction yields a new instance (a
  fresh reference, one more object in the store) whose code is the argument.
\<close>

theorem OAuth2Error_no_validation:
  "fst (new_OAuth2Error k m s) = length s
   \<and> length (snd (new_OAuth2Error k m s)) = Suc (length s)
   \<and> name (instance_of (new_OAuth2Error k m s)) = ''OAuth2Error''
   \<and> code (instance_of (new_OAuth2Error k m s)) = k"
  by (simp add: new_OAuth2Error_def instance_of_alloc alloc_ref alloc_length OAuth2Error_def)

section \<open>Mutation\<close>



end
